theory Spec2Isabelle
  imports Complex_Main
begin

section \<open>Codebook cross-validation of plot\_reconstructed\_codebook.py\<close>

text \<open>
  A shallow embedding of \<^verbatim>\<open>compare_codebooks\<close> and \<^verbatim>\<open>plot_with_voronoi\<close>.
  Python floats are modelled as exact reals (rounding of the floating-point unit is not
  modelled), Python integers as \<open>int\<close>, loop indices produced by \<^verbatim>\<open>range\<close> as \<open>nat\<close>.
  The quantizer classes, the nearest-point function and scipy's \<^verbatim>\<open>Voronoi\<close> are imported
  by the source file from elsewhere: they are parameters of the model.
\<close>

subsection \<open>Python values and errors\<close>

datatype error = ZeroDivisionError | TypeError | IndexError | ConstructionError | QhullError

text \<open>A Python number is an \<^verbatim>\<open>int\<close> or a \<^verbatim>\<open>float\<close>; \<^verbatim>\<open>range\<close> accepts only the former.\<close>

datatype pynum = PyInt int | PyFloat real

fun num_val :: "pynum \<Rightarrow> real" where
  "num_val (PyInt k) = of_int k"
| "num_val (PyFloat x) = x"

text \<open>
  \<^verbatim>\<open>b ** e\<close> on two Python ints: an int when the exponent is non-negative, a float when
  it is negative, and \<^verbatim>\<open>ZeroDivisionError\<close> for zero to a negative power.
\<close>

definition py_pow :: "int \<Rightarrow> int \<Rightarrow> error + pynum" where
  "py_pow b e =
     (if 0 \<le> e then Inr (PyInt (b ^ nat e))
      else if b = 0 then Inl ZeroDivisionError
      else Inr (PyFloat (1 / of_int b ^ nat (- e))))"

text \<open>\<^verbatim>\<open>range(x)\<close>: \<^verbatim>\<open>TypeError\<close> on a float, empty for \<open>x \<le> 0\<close>.\<close>

fun py_range :: "pynum \<Rightarrow> error + nat list" where
  "py_range (PyInt k) = Inr [0..<nat k]"
| "py_range (PyFloat x) = Inl TypeError"

text \<open>
  \<^verbatim>\<open>xs[i]\<close> on a Python list or a numpy array: an index in \<open>[0, len)\<close> reads from the
  front, one in \<open>[-len, 0)\<close> reads from the back, any other raises \<^verbatim>\<open>IndexError\<close>.
\<close>

definition py_get :: "'a list \<Rightarrow> int \<Rightarrow> error + 'a" where
  "py_get xs i =
     (if 0 \<le> i \<and> i < int (length xs) then Inr (xs ! nat i)
      else if i < 0 \<and> - int (length xs) \<le> i then Inr (xs ! nat (int (length xs) + i))
      else Inl IndexError)"

text \<open>Indexing with a list of indices (numpy fancy indexing): the first bad index raises.\<close>

fun py_take :: "'a list \<Rightarrow> int list \<Rightarrow> error + 'a list" where
  "py_take xs [] = Inr []"
| "py_take xs (i # is) =
     (case py_get xs i of
        Inl e \<Rightarrow> Inl e
      | Inr x \<Rightarrow> (case py_take xs is of Inl e \<Rightarrow> Inl e | Inr ys \<Rightarrow> Inr (x # ys)))"

subsection \<open>Vectors and the numpy primitives the source calls\<close>

type_synonym point = "real \<times> real"
type_synonym matrix = "(real \<times> real) \<times> (real \<times> real)"
type_synonym index_pair = "nat \<times> nat"

text \<open>\<^verbatim>\<open>np.dot(G, np.array([i, j]))\<close> for a 2x2 matrix given by its rows.\<close>

fun dot :: "matrix \<Rightarrow> point \<Rightarrow> point" where
  "dot ((a, b), (c, d)) (x, y) = (a * x + b * y, c * x + d * y)"

fun vadd :: "point \<Rightarrow> point \<Rightarrow> point" where
  "vadd (a, b) (x, y) = (a + x, b + y)"

fun scale :: "real \<Rightarrow> point \<Rightarrow> point" where
  "scale c (x, y) = (c * x, c * y)"

text \<open>
  \<^verbatim>\<open>np.isclose(a, b, rtol, atol)\<close> is \<open>|a - b| \<le> atol + rtol * |b|\<close>; \<^verbatim>\<open>rtol\<close> defaults
  to \<open>1e-5\<close> and the source never overrides it. \<^verbatim>\<open>np.allclose\<close> is \<^verbatim>\<open>isclose\<close> on
  every component.
\<close>

definition default_rtol :: real where
  "default_rtol = 1 / 10 ^ 5"

definition isclose :: "real \<Rightarrow> real \<Rightarrow> real \<Rightarrow> real \<Rightarrow> bool" where
  "isclose a b rtol atol = (\<bar>a - b\<bar> \<le> atol + rtol * \<bar>b\<bar>)"

fun allclose :: "point \<Rightarrow> point \<Rightarrow> real \<Rightarrow> bool" where
  "allclose (a1, a2) (b1, b2) atol =
     (isclose a1 b1 default_rtol atol \<and> isclose a2 b2 default_rtol atol)"

text \<open>\<^verbatim>\<open>np.rint\<close>: to the nearest integer, ties to the even one.\<close>

definition rint :: "real \<Rightarrow> int" where
  "rint x =
     (let f = \<lfloor>x\<rfloor>; t = x - of_int f
      in if t < 1 / 2 then f else if 1 / 2 < t then f + 1
         else if even f then f else f + 1)"

text \<open>\<^verbatim>\<open>np.round(x, decimals)\<close> scales by \<open>10 ^ decimals\<close>, rounds and scales back.\<close>

definition np_round :: "real \<Rightarrow> nat \<Rightarrow> real" where
  "np_round x decimals = of_int (rint (x * 10 ^ decimals)) / 10 ^ decimals"

fun round_point :: "point \<Rightarrow> nat \<Rightarrow> point" where
  "round_point (x, y) decimals = (np_round x decimals, np_round y decimals)"

subsection \<open>The quantizer interface\<close>

text \<open>
  A quantizer object offers \<^verbatim>\<open>_encode\<close>, returning a representation and an overflow flag,
  and \<^verbatim>\<open>_decode\<close>. The representation type is opaque to the caller.
\<close>

record 'e quantizer =
  encode :: "point \<Rightarrow> 'e \<times> bool"
  decode :: "'e \<Rightarrow> point"

text \<open>
  The constructors, as the source calls them:
  \<^verbatim>\<open>HQuantizer(G, closest_point, q, beta, alpha, M)\<close> and
  \<^verbatim>\<open>NQuantizer(G, closest_point, q, beta, alpha)\<close>. A constructor may raise.
\<close>

type_synonym 'e hconstructor =
  "matrix \<Rightarrow> (point \<Rightarrow> point) \<Rightarrow> int \<Rightarrow> real \<Rightarrow> real \<Rightarrow> int \<Rightarrow> error + 'e quantizer"
type_synonym 'e nconstructor =
  "matrix \<Rightarrow> (point \<Rightarrow> point) \<Rightarrow> real \<Rightarrow> real \<Rightarrow> real \<Rightarrow> error + 'e quantizer"

subsection \<open>compare\_codebooks: set-up (lines 46 to 49)\<close>

text \<open>\<^verbatim>\<open>r_q = (1 - q**(1-M)) / (q - 1)\<close>: true division, so the result is a float.\<close>

definition overlap_fraction :: "int \<Rightarrow> int \<Rightarrow> error + real" where
  "overlap_fraction q M =
     (case py_pow q (1 - M) of
        Inl e \<Rightarrow> Inl e
      | Inr p \<Rightarrow> if q - 1 = 0 then Inl ZeroDivisionError
                 else Inr ((1 - num_val p) / of_int (q - 1)))"

text \<open>The first argument of the flat constructor: \<^verbatim>\<open>(q**M) * (1 - r_q)\<close>.\<close>

definition flat_alphabet :: "int \<Rightarrow> int \<Rightarrow> real \<Rightarrow> error + real" where
  "flat_alphabet q M r_q =
     (case py_pow q M of Inl e \<Rightarrow> Inl e | Inr p \<Rightarrow> Inr (num_val p * (1 - r_q)))"

text \<open>Lines 46, 48 and 49 in the order the interpreter runs them.\<close>

definition cc_setup ::
  "'h hconstructor \<Rightarrow> 'n nconstructor \<Rightarrow> matrix \<Rightarrow> (point \<Rightarrow> point) \<Rightarrow> int \<Rightarrow> int
     \<Rightarrow> error + (real \<times> 'h quantizer \<times> 'n quantizer)" where
  "cc_setup HQuantizer NQuantizer G closest_point q M =
     (case overlap_fraction q M of
        Inl e \<Rightarrow> Inl e
      | Inr r_q \<Rightarrow>
          (case HQuantizer G closest_point q 1 1 M of
             Inl e \<Rightarrow> Inl e
           | Inr h_quantizer \<Rightarrow>
               (case flat_alphabet q M r_q of
                  Inl e \<Rightarrow> Inl e
                | Inr a \<Rightarrow>
                    (case NQuantizer G closest_point a 1 1 of
                       Inl e \<Rightarrow> Inl e
                     | Inr n_quantizer \<Rightarrow> Inr (r_q, h_quantizer, n_quantizer)))))"

subsection \<open>compare\_codebooks: the grid sweep (lines 43 to 77)\<close>

type_synonym mismatch_record = "point \<times> point \<times> point"
type_synonym duplicate_record = "point \<times> index_pair \<times> index_pair"

text \<open>
  The local variables the loop updates. \<^verbatim>\<open>point_map\<close> is a dict that is only looked up
  and extended with absent keys: an association list in insertion order.
\<close>

record sweep_state =
  lattice_points :: "point list"
  mismatches :: "mismatch_record list"
  matches :: "(point \<times> point) list"
  point_map :: "(point \<times> index_pair) list"
  duplicates :: "duplicate_record list"

definition init_state :: sweep_state where
  "init_state = \<lparr>lattice_points = [], mismatches = [], matches = [], point_map = [],
     duplicates = []\<rparr>"

text \<open>Line 54: the perturbation, from the normal sample \<open>z\<close> drawn once per run.\<close>

definition perturbation :: "point \<Rightarrow> point" where
  "perturbation z = scale (1 / 10 ^ 9) z"

text \<open>Line 57.\<close>

definition perturbed_point :: "matrix \<Rightarrow> point \<Rightarrow> index_pair \<Rightarrow> point" where
  "perturbed_point G d ij = vadd (dot G (of_nat (fst ij), of_nat (snd ij))) d"

text \<open>Lines 59/60 and 62/63: encode, drop the overflow flag, decode.\<close>

definition roundtrip :: "'e quantizer \<Rightarrow> point \<Rightarrow> point" where
  "roundtrip qz p = (case encode qz p of (enc, _) \<Rightarrow> decode qz enc)"

text \<open>Lines 65 to 69.\<close>

definition classify :: "point \<Rightarrow> point \<Rightarrow> point \<Rightarrow> sweep_state \<Rightarrow> sweep_state" where
  "classify l_p dec l_dec s =
     (if allclose l_dec l_p (1 / 10 ^ 7) then
        (if \<not> allclose dec l_dec (1 / 10 ^ 7)
         then s\<lparr>mismatches := mismatches s @ [(l_p, dec, l_dec)]\<rparr>
         else s\<lparr>matches := matches s @ [(l_p, dec)]\<rparr>)
      else s)"

text \<open>Lines 71 to 75.\<close>

definition track_duplicate :: "point \<Rightarrow> index_pair \<Rightarrow> sweep_state \<Rightarrow> sweep_state" where
  "track_duplicate dec_tuple ij s =
     (case map_of (point_map s) dec_tuple of
        Some first_seen \<Rightarrow> s\<lparr>duplicates := duplicates s @ [(dec_tuple, first_seen, ij)]\<rparr>
      | None \<Rightarrow> s\<lparr>point_map := point_map s @ [(dec_tuple, ij)]\<rparr>)"

text \<open>The loop body, lines 57 to 77.\<close>

definition cc_body ::
  "matrix \<Rightarrow> 'h quantizer \<Rightarrow> 'n quantizer \<Rightarrow> point \<Rightarrow> index_pair \<Rightarrow> sweep_state
     \<Rightarrow> sweep_state" where
  "cc_body G h_quantizer n_quantizer d ij s =
     (let l_p = perturbed_point G d ij;
          dec = roundtrip h_quantizer l_p;
          l_dec = roundtrip n_quantizer l_p;
          s1 = classify l_p dec l_dec s;
          s2 = track_duplicate (round_point dec 9) ij s1
      in s2\<lparr>lattice_points := lattice_points s2 @ [dec]\<rparr>)"

text \<open>The two nested \<^verbatim>\<open>for\<close> loops over the same range, lines 55 and 56.\<close>

definition cc_loops ::
  "matrix \<Rightarrow> 'h quantizer \<Rightarrow> 'n quantizer \<Rightarrow> point \<Rightarrow> nat list \<Rightarrow> sweep_state
     \<Rightarrow> sweep_state" where
  "cc_loops G h_quantizer n_quantizer d rng s =
     fold (\<lambda>i. fold (\<lambda>j. cc_body G h_quantizer n_quantizer d (i, j)) rng) rng s"

subsection \<open>compare\_codebooks: the report (lines 79 to 98)\<close>

datatype outline =
    UniqueCount nat
  | DuplicatesFound "duplicate_record list"
  | AllUnique
  | MismatchesFound "mismatch_record list"
  | AllMatched

text \<open>\<^verbatim>\<open>len(np.unique(lattice_points, axis=0))\<close>: the number of distinct rows.\<close>

definition unique_count :: "point list \<Rightarrow> nat" where
  "unique_count ps = length (remdups ps)"

definition cc_report :: "sweep_state \<Rightarrow> outline list" where
  "cc_report s =
     [UniqueCount (unique_count (lattice_points s)),
      (if duplicates s \<noteq> [] then DuplicatesFound (duplicates s) else AllUnique),
      (if mismatches s \<noteq> [] then MismatchesFound (mismatches s) else AllMatched)]"

subsection \<open>plot\_with\_voronoi\<close>

text \<open>What the source reads of scipy's \<^verbatim>\<open>Voronoi\<close> object.\<close>

record voronoi =
  vertices :: "point list"
  regions :: "int list list"
  point_region :: "int list"

text \<open>What is handed to the plotting library: the scatter and the three polygons.\<close>

record plot =
  scatter :: "point list"
  inner_polygon :: "point list"
  nominal_polygon :: "point list"
  outer_polygon :: "point list"

text \<open>
  Line 110: the first row whose components are both \<^verbatim>\<open>isclose\<close> to 0 with \<^verbatim>\<open>atol=1e-2\<close>;
  \<^verbatim>\<open>[0][0]\<close> raises \<^verbatim>\<open>IndexError\<close> when there is none.
\<close>

definition near_origin :: "point \<Rightarrow> bool" where
  "near_origin p = allclose p (0, 0) (1 / 10 ^ 2)"

fun find_origin :: "point list \<Rightarrow> nat \<Rightarrow> error + nat" where
  "find_origin [] k = Inl IndexError"
| "find_origin (p # ps) k = (if near_origin p then Inr k else find_origin ps (Suc k))"

text \<open>Lines 118 to 120: \<^verbatim>\<open>np.vstack([vs, vs[0]])\<close>.\<close>

definition close_polygon :: "point list \<Rightarrow> error + point list" where
  "close_polygon vs = (case vs of [] \<Rightarrow> Inl IndexError | v # _ \<Rightarrow> Inr (vs @ [v]))"

definition plot_with_voronoi ::
  "(point list \<Rightarrow> error + voronoi) \<Rightarrow> point list \<Rightarrow> int \<Rightarrow> real \<Rightarrow> int \<Rightarrow> error + plot" where
  "plot_with_voronoi Voronoi points q r_qM M =
     (if points = [] then Inl IndexError else
      case Voronoi points of Inl e \<Rightarrow> Inl e | Inr vor \<Rightarrow>
      case find_origin points 0 of Inl e \<Rightarrow> Inl e | Inr origin_idx \<Rightarrow>
      case py_get (point_region vor) (int origin_idx) of Inl e \<Rightarrow> Inl e | Inr region_idx \<Rightarrow>
      case py_get (regions vor) region_idx of Inl e \<Rightarrow> Inl e | Inr region \<Rightarrow>
      case py_take (vertices vor) region of Inl e \<Rightarrow> Inl e | Inr vs \<Rightarrow>
      case py_pow q M of Inl e \<Rightarrow> Inl e | Inr qM \<Rightarrow>
      let scaled_vertices_q_qm1 = map (scale (num_val qM * (1 - r_qM))) vs;
          scaled_vertices_q_qp1 = map (scale (num_val qM * (1 + r_qM))) vs;
          scaled_vertices_q2 = map (scale (num_val qM)) vs
      in
      case close_polygon scaled_vertices_q_qm1 of Inl e \<Rightarrow> Inl e | Inr inner \<Rightarrow>
      case close_polygon scaled_vertices_q_qp1 of Inl e \<Rightarrow> Inl e | Inr outer \<Rightarrow>
      case close_polygon scaled_vertices_q2 of Inl e \<Rightarrow> Inl e | Inr nominal \<Rightarrow>
      Inr \<lparr>scatter = points, inner_polygon = inner, nominal_polygon = nominal,
           outer_polygon = outer\<rparr>)"

subsection \<open>compare\_codebooks\<close>

text \<open>
  The function prints and returns nothing: its result is what it has printed and how it
  ended (an error, or the plot when \<^verbatim>\<open>with_plot\<close> holds).
\<close>

definition cc_sweep ::
  "matrix \<Rightarrow> 'h quantizer \<Rightarrow> 'n quantizer \<Rightarrow> point \<Rightarrow> nat list \<Rightarrow> sweep_state" where
  "cc_sweep G h_quantizer n_quantizer d rng = cc_loops G h_quantizer n_quantizer d rng init_state"

definition compare_codebooks ::
  "'h hconstructor \<Rightarrow> 'n nconstructor \<Rightarrow> (point list \<Rightarrow> error + voronoi) \<Rightarrow> point
     \<Rightarrow> matrix \<Rightarrow> (point \<Rightarrow> point) \<Rightarrow> int \<Rightarrow> int \<Rightarrow> bool
     \<Rightarrow> outline list \<times> (error + plot option)" where
  "compare_codebooks HQuantizer NQuantizer Voronoi z G closest_point q M with_plot =
     (case cc_setup HQuantizer NQuantizer G closest_point q M of
        Inl e \<Rightarrow> ([], Inl e)
      | Inr (r_q, h_quantizer, n_quantizer) \<Rightarrow>
          (case py_pow q M of
             Inl e \<Rightarrow> ([], Inl e)
           | Inr qM \<Rightarrow>
               (case py_range qM of
                  Inl e \<Rightarrow> ([], Inl e)
                | Inr rng \<Rightarrow>
                    (let s = cc_sweep G h_quantizer n_quantizer (perturbation z) rng
                     in (cc_report s,
                         if with_plot
                         then (case plot_with_voronoi Voronoi (lattice_points s) q r_q M of
                                 Inl e \<Rightarrow> Inl e
                               | Inr p \<Rightarrow> Inr (Some p))
                         else Inr None)))))"

subsection \<open>Names for what one iteration computes\<close>

text \<open>Line 60: the hierarchical decode \<^verbatim>\<open>dec\<close> of the perturbed point of an index pair.\<close>

definition h_decode :: "matrix \<Rightarrow> 'h quantizer \<Rightarrow> point \<Rightarrow> index_pair \<Rightarrow> point" where
  "h_decode G h_quantizer d ij = roundtrip h_quantizer (perturbed_point G d ij)"

text \<open>Line 63: the flat decode \<^verbatim>\<open>l_dec\<close>.\<close>

definition n_decode :: "matrix \<Rightarrow> 'n quantizer \<Rightarrow> point \<Rightarrow> index_pair \<Rightarrow> point" where
  "n_decode G n_quantizer d ij = roundtrip n_quantizer (perturbed_point G d ij)"

text \<open>Line 71: the dictionary key \<^verbatim>\<open>dec_tuple\<close>.\<close>

definition rounded_decode :: "matrix \<Rightarrow> 'h quantizer \<Rightarrow> point \<Rightarrow> index_pair \<Rightarrow> point" where
  "rounded_decode G h_quantizer d ij = round_point (h_decode G h_quantizer d ij) 9"

text \<open>The index pairs in the order the nested loops visit them.\<close>

definition grid :: "nat list \<Rightarrow> index_pair list" where
  "grid rng = List.product rng rng"

subsection \<open>Readings of the specification that the code is compared with\<close>

text \<open>A purely absolute tolerance on both components, as the specification words it.\<close>

fun within_abs_tol :: "point \<Rightarrow> point \<Rightarrow> real \<Rightarrow> bool" where
  "within_abs_tol (a1, a2) (b1, b2) tol = (\<bar>a1 - b1\<bar> \<le> tol \<and> \<bar>a2 - b2\<bar> \<le> tol)"



text \<open>
  The sweep with the two loops exchanged (outer loop over \<open>j\<close>, inner over \<open>i\<close>): the
  column-major enumeration of the specification, with the loop body of the source.
\<close>

definition cc_loops_colmajor ::
  "matrix \<Rightarrow> 'h quantizer \<Rightarrow> 'n quantizer \<Rightarrow> point \<Rightarrow> nat list \<Rightarrow> sweep_state
     \<Rightarrow> sweep_state" where
  "cc_loops_colmajor G h_quantizer n_quantizer d rng s =
     fold (\<lambda>j. fold (\<lambda>i. cc_body G h_quantizer n_quantizer d (i, j)) rng) rng s"

subsection \<open>Concrete collaborators for worked examples\<close>

definition id_matrix :: matrix where
  "id_matrix = ((1, 0), (0, 1))"

text \<open>A quantizer whose decode adds a fixed vector to the encoded point.\<close>

definition shift_quantizer :: "point \<Rightarrow> point quantizer" where
  "shift_quantizer v = \<lparr>encode = (\<lambda>p. (p, False)), decode = (\<lambda>e. vadd e v)\<rparr>"

text \<open>A quantizer that decodes everything to one point.\<close>

definition const_quantizer :: "point \<Rightarrow> point quantizer" where
  "const_quantizer c = \<lparr>encode = (\<lambda>p. (p, False)), decode = (\<lambda>e. c)\<rparr>"

text \<open>A quantizer that decodes \<open>(x, y)\<close> to \<open>(x + y, 0)\<close>.\<close>

definition fold_quantizer :: "point quantizer" where
  "fold_quantizer = \<lparr>encode = (\<lambda>p. (p, False)), decode = (\<lambda>e. (fst e + snd e, 0))\<rparr>"

text \<open>A quantizer whose decode is off by the relative amount \<open>5e-6\<close> in the first component.\<close>

definition skew_quantizer :: "point quantizer" where
  "skew_quantizer =
     \<lparr>encode = (\<lambda>p. (p, False)), decode = (\<lambda>e. (fst e + fst e * (5 / 10 ^ 6), snd e))\<rparr>"

text \<open>Constructors that accept every argument.\<close>

definition accept_h :: "point quantizer \<Rightarrow> point hconstructor" where
  "accept_h qz = (\<lambda>G closest_point q beta alpha M. Inr qz)"

definition accept_n :: "point quantizer \<Rightarrow> point nconstructor" where
  "accept_n qz = (\<lambda>G closest_point q beta alpha. Inr qz)"


text \<open>A Voronoi diagram with one region, the square with corners on the axes.\<close>

definition square_voronoi :: "point list \<Rightarrow> error + voronoi" where
  "square_voronoi ps =
     Inr \<lparr>vertices = [(0, 1), (1, 0), (0, -1), (-1, 0)], regions = [[0, 1, 2, 3]],
          point_region = map (\<lambda>p. 0) ps\<rparr>"


section \<open>Properties\<close>

subsection \<open>The nested loops are one pass over the row-major grid\<close>

lemma fold_product:
  "fold f (List.product xs ys) s = fold (\<lambda>x. fold (\<lambda>y. f (x, y)) ys) xs s"
  by (induction xs arbitrary: s) (simp_all add: fold_map comp_def)

lemma cc_loops_flat:
  "cc_loops G h n d rng s = fold (cc_body G h n d) (grid rng) s"
  by (simp add: cc_loops_def grid_def fold_product)

lemma cc_sweep_flat:
  "cc_sweep G h n d rng = fold (cc_body G h n d) (grid rng) init_state"
  by (simp add: cc_sweep_def cc_loops_flat)

lemma cc_loops_colmajor_flat:
  "cc_loops_colmajor G h n d rng s =
     fold (cc_body G h n d) (map prod.swap (grid rng)) s"
proof -
  have "fold (cc_body G h n d) (map prod.swap (List.product rng rng)) s =
        fold (\<lambda>p. cc_body G h n d (prod.swap p)) (List.product rng rng) s"
    by (simp add: fold_map comp_def)
  also have "\<dots> = fold (\<lambda>j. fold (\<lambda>i. cc_body G h n d (prod.swap (j, i))) rng) rng s"
    by (rule fold_product)
  finally show ?thesis
    by (simp add: cc_loops_colmajor_def grid_def)
qed

lemma length_grid: "length (grid rng) = length rng * length rng"
  by (simp add: grid_def)

lemma set_grid: "set (grid rng) = set rng \<times> set rng"
  by (simp add: grid_def)

lemma grid_nth:
  assumes "i < N" "j < N"
  shows "grid [0..<N] ! (i * N + j) = (i, j)"
proof -
  have "i * N + j < N * N"
  proof -
    have "i * N + j < i * N + N" using assms by simp
    also have "\<dots> = Suc i * N" by simp
    also have "\<dots> \<le> N * N" using assms by (simp add: Suc_leI mult_le_mono1 del: mult_Suc)
    finally show ?thesis .
  qed
  then show ?thesis
    using assms by (simp add: grid_def product_nth)
qed

subsection \<open>What one iteration does to each variable\<close>

lemma init_fields [simp]:
  "lattice_points init_state = []" "mismatches init_state = []" "matches init_state = []"
  "point_map init_state = []" "duplicates init_state = []"
  by (simp_all add: init_state_def)

lemma classify_fields [simp]:
  "lattice_points (classify l_p dec l_dec s) = lattice_points s"
  "point_map (classify l_p dec l_dec s) = point_map s"
  "duplicates (classify l_p dec l_dec s) = duplicates s"
  by (simp_all add: classify_def)

lemma track_duplicate_fields [simp]:
  "lattice_points (track_duplicate p ij s) = lattice_points s"
  "mismatches (track_duplicate p ij s) = mismatches s"
  "matches (track_duplicate p ij s) = matches s"
  by (simp_all add: track_duplicate_def split: option.splits)

lemma lattice_points_body:
  "lattice_points (cc_body G h n d ij s) = lattice_points s @ [h_decode G h d ij]"
  by (simp add: cc_body_def Let_def h_decode_def)

lemma mismatches_body:
  "mismatches (cc_body G h n d ij s) =
     mismatches s @
       (if allclose (n_decode G n d ij) (perturbed_point G d ij) (1 / 10 ^ 7) \<and>
           \<not> allclose (h_decode G h d ij) (n_decode G n d ij) (1 / 10 ^ 7)
        then [(perturbed_point G d ij, h_decode G h d ij, n_decode G n d ij)] else [])"
  by (simp add: cc_body_def Let_def classify_def h_decode_def n_decode_def)

lemma matches_body:
  "matches (cc_body G h n d ij s) =
     matches s @
       (if allclose (n_decode G n d ij) (perturbed_point G d ij) (1 / 10 ^ 7) \<and>
           allclose (h_decode G h d ij) (n_decode G n d ij) (1 / 10 ^ 7)
        then [(perturbed_point G d ij, h_decode G h d ij)] else [])"
  by (simp add: cc_body_def Let_def classify_def h_decode_def n_decode_def)

lemma point_map_body:
  "point_map (cc_body G h n d ij s) =
     (case map_of (point_map s) (rounded_decode G h d ij) of
        Some v \<Rightarrow> point_map s
      | None \<Rightarrow> point_map s @ [(rounded_decode G h d ij, ij)])"
  by (simp add: cc_body_def Let_def track_duplicate_def rounded_decode_def h_decode_def
      split: option.splits)

lemma duplicates_body:
  "duplicates (cc_body G h n d ij s) =
     (case map_of (point_map s) (rounded_decode G h d ij) of
        Some v \<Rightarrow> duplicates s @ [(rounded_decode G h d ij, v, ij)]
      | None \<Rightarrow> duplicates s)"
  by (simp add: cc_body_def Let_def track_duplicate_def rounded_decode_def h_decode_def
      split: option.splits)

subsection \<open>What a pass over a list of index pairs does\<close>

lemma lattice_points_fold:
  "lattice_points (fold (cc_body G h n d) ps s) = lattice_points s @ map (h_decode G h d) ps"
  by (induction ps arbitrary: s) (simp_all add: lattice_points_body)

lemma mismatches_fold:
  "mismatches (fold (cc_body G h n d) ps s) =
     mismatches s @
       map (\<lambda>ij. (perturbed_point G d ij, h_decode G h d ij, n_decode G n d ij))
         (filter (\<lambda>ij. allclose (n_decode G n d ij) (perturbed_point G d ij) (1 / 10 ^ 7) \<and>
                     \<not> allclose (h_decode G h d ij) (n_decode G n d ij) (1 / 10 ^ 7)) ps)"
  by (induction ps arbitrary: s) (simp_all add: mismatches_body)

lemma matches_fold:
  "matches (fold (cc_body G h n d) ps s) =
     matches s @
       map (\<lambda>ij. (perturbed_point G d ij, h_decode G h d ij))
         (filter (\<lambda>ij. allclose (n_decode G n d ij) (perturbed_point G d ij) (1 / 10 ^ 7) \<and>
                     allclose (h_decode G h d ij) (n_decode G n d ij) (1 / 10 ^ 7)) ps)"
  by (induction ps arbitrary: s) (simp_all add: matches_body)

lemma map_of_body:
  "map_of (point_map (cc_body G h n d ij s)) =
     map_of (point_map s @ [(rounded_decode G h d ij, ij)])"
  by (rule ext) (auto simp: point_map_body map_add_def split: option.splits)

lemma map_of_append_cong:
  "map_of xs = map_of ys \<Longrightarrow> map_of (xs @ zs) = map_of (ys @ zs)"
  by simp

lemma map_of_fold:
  "map_of (point_map (fold (cc_body G h n d) ps s)) =
     map_of (point_map s @ map (\<lambda>ij. (rounded_decode G h d ij, ij)) ps)"
proof (induction ps arbitrary: s)
  case Nil
  show ?case by simp
next
  case (Cons x ps)
  have "map_of (point_map (fold (cc_body G h n d) (x # ps) s)) =
        map_of (point_map (cc_body G h n d x s) @ map (\<lambda>ij. (rounded_decode G h d ij, ij)) ps)"
    using Cons.IH by simp
  also have "\<dots> =
        map_of ((point_map s @ [(rounded_decode G h d x, x)]) @
                map (\<lambda>ij. (rounded_decode G h d ij, ij)) ps)"
    by (rule map_of_append_cong) (rule map_of_body)
  finally show ?case by simp
qed

lemma map_of_keyed:
  "map_of (map (\<lambda>ij. (f ij, ij)) ps) k = find (\<lambda>y. f y = k) ps"
  by (induction ps) auto

lemma count_body:
  "length (point_map (cc_body G h n d ij s)) + length (duplicates (cc_body G h n d ij s)) =
     Suc (length (point_map s) + length (duplicates s))"
  by (simp add: point_map_body duplicates_body split: option.splits)

lemma count_fold:
  "length (point_map (fold (cc_body G h n d) ps s)) +
   length (duplicates (fold (cc_body G h n d) ps s)) =
     length (point_map s) + length (duplicates s) + length ps"
  by (induction ps arbitrary: s) (simp_all add: count_body)

lemma keys_body:
  "fst ` set (point_map (cc_body G h n d ij s)) =
     insert (rounded_decode G h d ij) (fst ` set (point_map s))"
  by (auto simp: point_map_body map_of_eq_None_iff split: option.splits
      dest: map_of_SomeD intro: rev_image_eqI)

lemma keys_fold:
  "fst ` set (point_map (fold (cc_body G h n d) ps s)) =
     fst ` set (point_map s) \<union> rounded_decode G h d ` set ps"
  by (induction ps arbitrary: s) (simp_all add: keys_body)

lemma distinct_body:
  "distinct (map fst (point_map s)) \<Longrightarrow>
     distinct (map fst (point_map (cc_body G h n d ij s)))"
  by (auto simp: point_map_body map_of_eq_None_iff split: option.splits)

lemma distinct_fold:
  "distinct (map fst (point_map s)) \<Longrightarrow>
     distinct (map fst (point_map (fold (cc_body G h n d) ps s)))"
  by (induction ps arbitrary: s) (simp_all add: distinct_body)

lemma length_point_map:
  "length (point_map (fold (cc_body G h n d) ps init_state)) =
     card (rounded_decode G h d ` set ps)"
proof -
  let ?pm = "point_map (fold (cc_body G h n d) ps init_state)"
  have d: "distinct (map fst ?pm)"
    by (rule distinct_fold) simp
  have "card (rounded_decode G h d ` set ps) = card (set (map fst ?pm))"
    by (simp add: keys_fold)
  also have "\<dots> = length (map fst ?pm)"
    using d by (rule distinct_card)
  finally show ?thesis by simp
qed

lemma length_duplicates:
  "length (duplicates (fold (cc_body G h n d) ps init_state)) =
     length ps - card (rounded_decode G h d ` set ps)"
  using count_fold [of G h n d ps init_state] length_point_map [of G h n d ps] by simp

lemma duplicates_snoc:
  "duplicates (fold (cc_body G h n d) (ps @ [x]) init_state) =
     (case find (\<lambda>y. rounded_decode G h d y = rounded_decode G h d x) ps of
        Some v \<Rightarrow>
          duplicates (fold (cc_body G h n d) ps init_state) @ [(rounded_decode G h d x, v, x)]
      | None \<Rightarrow> duplicates (fold (cc_body G h n d) ps init_state))"
  by (simp add: duplicates_body map_of_fold map_of_keyed)

lemma find_first_index:
  "find P ps = Some v \<longleftrightarrow> (\<exists>k'<length ps. ps ! k' = v \<and> P v \<and> (\<forall>m<k'. \<not> P (ps ! m)))"
  by (auto simp: find_Some_iff)

subsection \<open>Duplicate records, by position in the enumeration\<close>

lemma set_swap_grid: "set (map prod.swap (grid rng)) = set (grid rng)"
  by (auto simp: set_grid)

lemma dup_step:
  assumes IH: "\<And>p a b. (p, a, b) \<in> D \<longleftrightarrow>
     (\<exists>k k'. k < length ps \<and> k' < k \<and> b = ps ! k \<and> a = ps ! k' \<and> p = f b \<and>
        f a = p \<and> (\<forall>m<k'. f (ps ! m) \<noteq> p))"
  shows "(p, a, b) \<in> D \<union> (case find (\<lambda>y. f y = f x) ps of Some v \<Rightarrow> {(f x, v, x)} | None \<Rightarrow> {}) \<longleftrightarrow>
     (\<exists>k k'. k < length (ps @ [x]) \<and> k' < k \<and> b = (ps @ [x]) ! k \<and> a = (ps @ [x]) ! k' \<and>
        p = f b \<and> f a = p \<and> (\<forall>m<k'. f ((ps @ [x]) ! m) \<noteq> p))"
  (is "?L \<longleftrightarrow> ?R")
proof
  assume ?L
  then consider (old) "(p, a, b) \<in> D"
    | (new) v where "find (\<lambda>y. f y = f x) ps = Some v" "p = f x" "a = v" "b = x"
    by (auto split: option.splits)
  then show ?R
  proof cases
    case old
    then obtain k k' where "k < length ps" "k' < k" "b = ps ! k" "a = ps ! k'" "p = f b"
        "f a = p" "\<forall>m<k'. f (ps ! m) \<noteq> p"
      using IH by blast
    then show ?thesis
      by (intro exI[of _ k] exI[of _ k']) (auto simp: nth_append)
  next
    case new
    then obtain k' where "k' < length ps" "ps ! k' = v" "f v = f x" "\<forall>m<k'. f (ps ! m) \<noteq> f x"
      by (auto simp: find_first_index)
    with new show ?thesis
      by (intro exI[of _ "length ps"] exI[of _ k']) (auto simp: nth_append)
  qed
next
  assume ?R
  then obtain k k' where R: "k < length (ps @ [x])" "k' < k" "b = (ps @ [x]) ! k"
      "a = (ps @ [x]) ! k'" "p = f b" "f a = p" "\<forall>m<k'. f ((ps @ [x]) ! m) \<noteq> p"
    by blast
  show ?L
  proof (cases "k < length ps")
    case True
    with R have "(p, a, b) \<in> D"
      unfolding IH by (intro exI[of _ k] exI[of _ k']) (auto simp: nth_append)
    then show ?thesis by simp
  next
    case False
    with R have k: "k = length ps" by simp
    with R have "find (\<lambda>y. f y = f x) ps = Some a"
      unfolding find_first_index by (intro exI[of _ k']) (auto simp: nth_append)
    with R k show ?thesis by (simp add: nth_append)
  qed
qed

lemma duplicates_char:
  "(p, a, b) \<in> set (duplicates (fold (cc_body G h n d) ps init_state)) \<longleftrightarrow>
     (\<exists>k k'. k < length ps \<and> k' < k \<and> b = ps ! k \<and> a = ps ! k' \<and>
        p = rounded_decode G h d b \<and> rounded_decode G h d a = p \<and>
        (\<forall>m<k'. rounded_decode G h d (ps ! m) \<noteq> p))"
proof (induction ps arbitrary: p a b rule: rev_induct)
  case Nil
  show ?case by simp
next
  case (snoc x ps)
  have "set (duplicates (fold (cc_body G h n d) (ps @ [x]) init_state)) =
        set (duplicates (fold (cc_body G h n d) ps init_state)) \<union>
          (case find (\<lambda>y. rounded_decode G h d y = rounded_decode G h d x) ps of
             Some v \<Rightarrow> {(rounded_decode G h d x, v, x)} | None \<Rightarrow> {})"
    by (subst duplicates_snoc) (simp split: option.splits)
  then show ?case
    using dup_step[of _ ps "rounded_decode G h d", OF snoc.IH] by simp
qed

lemma first_seen_kept:
  "map_of (point_map (fold (cc_body G h n d) ps init_state)) p =
     find (\<lambda>ij. rounded_decode G h d ij = p) ps"
  by (simp add: map_of_fold map_of_keyed)

lemma allclose_iff:
  "allclose a b t \<longleftrightarrow>
     \<bar>fst a - fst b\<bar> \<le> t + \<bar>fst b\<bar> / 10 ^ 5 \<and> \<bar>snd a - snd b\<bar> \<le> t + \<bar>snd b\<bar> / 10 ^ 5"
  by (cases a; cases b) (simp add: isclose_def default_rtol_def)

subsection \<open>The whole run, once the set-up has succeeded\<close>

lemma py_pow_nonneg: "0 \<le> M \<Longrightarrow> py_pow q M = Inr (PyInt (q ^ nat M))"
  by (simp add: py_pow_def)

lemma compare_codebooks_run:
  assumes "cc_setup HQ NQ G cp q M = Inr (r_q, h, n)" "0 \<le> M"
  shows "compare_codebooks HQ NQ V z G cp q M with_plot =
     (cc_report (cc_sweep G h n (perturbation z) [0..<nat (q ^ nat M)]),
      if with_plot
      then (case plot_with_voronoi V
                   (lattice_points (cc_sweep G h n (perturbation z) [0..<nat (q ^ nat M)])) q r_q M of
              Inl e \<Rightarrow> Inl e | Inr p \<Rightarrow> Inr (Some p))
      else Inr None)"
  using assms by (simp add: compare_codebooks_def py_pow_nonneg Let_def)

lemma unique_count_le: "unique_count ps \<le> length ps"
  by (simp add: unique_count_def length_remdups_leq)

subsection \<open>The set-up arithmetic\<close>



lemma overlap_fraction_q1: "overlap_fraction 1 M = Inl ZeroDivisionError"
  by (simp add: overlap_fraction_def py_pow_def)

lemma overlap_fraction_M0: "q \<noteq> 1 \<Longrightarrow> overlap_fraction q 0 = Inr (- 1)"
proof -
  assume q: "q \<noteq> 1"
  then have "(of_int q :: real) - 1 \<noteq> 0" by simp
  then have "(1 - of_int q) / (of_int q - 1) = (- 1 :: real)"
    by (simp add: field_simps)
  with q show ?thesis
    by (simp add: overlap_fraction_def py_pow_def)
qed

lemma perturbed_origin: "perturbed_point G d (0, 0) = d"
proof -
  obtain a b c e where G: "G = ((a, b), (c, e))"
    by (metis surj_pair)
  obtain x y where d: "d = (x, y)"
    by (cases d)
  show ?thesis
    by (simp add: G d perturbed_point_def)
qed

lemma cc_sweep_single: "cc_sweep G h n d [0] = cc_body G h n d (0, 0) init_state"
  by (simp add: cc_sweep_def cc_loops_def)

subsection \<open>The origin lookup of plot\_with\_voronoi\<close>

lemma near_origin_iff: "near_origin p \<longleftrightarrow> \<bar>fst p\<bar> \<le> 1 / 10 ^ 2 \<and> \<bar>snd p\<bar> \<le> 1 / 10 ^ 2"
  by (cases p) (simp add: near_origin_def isclose_def)

lemma find_origin_none:
  "\<forall>p\<in>set ps. \<not> near_origin p \<Longrightarrow> find_origin ps k = Inl IndexError"
  by (induction ps arbitrary: k) simp_all

lemma plot_without_origin:
  assumes "\<forall>p\<in>set ps. \<not> near_origin p"
  shows "plot_with_voronoi V ps q r M =
     (if ps = [] then Inl IndexError
      else case V ps of Inl e \<Rightarrow> Inl e | Inr vor \<Rightarrow> Inl IndexError)"
  by (simp add: plot_with_voronoi_def find_origin_none [OF assms] split: sum.splits)

subsection \<open>The three polygons of plot\_with\_voronoi\<close>









subsection \<open>Evaluation of the worked examples\<close>

lemma upt_0_2: "[0..<2] = [0, 1]"
  by (simp add: upt_rec numeral_2_eq_2)

lemmas eval_defs = upt_0_2 cc_sweep_def cc_loops_def cc_body_def Let_def classify_def track_duplicate_def
  roundtrip_def perturbed_point_def perturbation_def init_state_def np_round_def rint_def
  isclose_def default_rtol_def id_matrix_def shift_quantizer_def const_quantizer_def
  fold_quantizer_def skew_quantizer_def

lemma accept_setup:
  "cc_setup (accept_h hq) (accept_n nq) G cp 2 1 = Inr (0, hq, nq)"
  by (simp add: cc_setup_def overlap_fraction_def flat_alphabet_def py_pow_def accept_h_def
      accept_n_def)

lemma grid_0_2: "grid [0..<2] = [(0, 0), (0, 1), (1, 0), (1, 1)]"
  by (simp add: grid_def upt_0_2)

lemma np_round_0: "np_round 0 k = 0"
  by (simp add: np_round_def rint_def)

lemma colmajor_changes_first_seen:
  "duplicates (cc_sweep id_matrix fold_quantizer (shift_quantizer (0, 0)) (0, 0) [0..<2]) =
     [((1, 0), (0, 1), (1, 0))] \<and>
   duplicates (cc_loops_colmajor id_matrix fold_quantizer (shift_quantizer (0, 0)) (0, 0) [0..<2]
       init_state) = [((1, 0), (1, 0), (0, 1))]"
  by (simp add: eval_defs cc_loops_colmajor_def)

lemma shifted_codebook:
  "lattice_points (cc_sweep id_matrix (shift_quantizer (1, 1)) (shift_quantizer (0, 0))
     (perturbation (0, 0)) [0..<2]) = [(1, 1), (1, 2), (2, 1), (2, 2)]"
  by (simp only: cc_sweep_flat lattice_points_fold)
    (simp add: grid_0_2 h_decode_def roundtrip_def perturbed_point_def perturbation_def
      id_matrix_def shift_quantizer_def)



section \<open>The claims\<close>

subsection \<open>C1: the sweep visits the whole grid in row-major order\<close>

text \<open>
  C1. For \<open>q \<ge> 2\<close> and \<open>M \<ge> 1\<close> the sweep runs over all index pairs \<open>(i, j)\<close> with
  \<open>i, j < q ^ M\<close>, outer loop over \<open>i\<close> and inner loop over \<open>j\<close>: entry \<open>i * q ^ M + j\<close> of
  the accumulated codebook is the hierarchical decode of pair \<open>(i, j)\<close>, whatever its
  classification. The codebook therefore has exactly \<open>q ^ (2 * M)\<close> entries, and the
  number of distinct points that the run prints first is at most \<open>q ^ (2 * M)\<close>.
\<close>

theorem sweep_covers_grid_row_major:
  assumes "2 \<le> q" "1 \<le> M" "cc_setup HQ NQ G cp q M = Inr (r_q, h, n)"
  shows "let N = nat (q ^ nat M);
             d = perturbation z;
             s = cc_sweep G h n d [0..<N]
         in fst (compare_codebooks HQ NQ V z G cp q M with_plot) = cc_report s \<and>
            hd (cc_report s) = UniqueCount (unique_count (lattice_points s)) \<and>
            lattice_points s = map (h_decode G h d) (grid [0..<N]) \<and>
            (\<forall>i<N. \<forall>j<N. lattice_points s ! (i * N + j) = h_decode G h d (i, j)) \<and>
            length (lattice_points s) = nat q ^ (2 * nat M) \<and>
            unique_count (lattice_points s) \<le> nat q ^ (2 * nat M)"
proof -
  define N where "N = nat (q ^ nat M)"
  define s where "s = cc_sweep G h n (perturbation z) [0..<N]"
  have M0: "0 \<le> M" using assms by simp
  have run: "fst (compare_codebooks HQ NQ V z G cp q M with_plot) = cc_report s"
    using compare_codebooks_run [OF assms(3) M0] by (simp add: s_def N_def)
  have lp: "lattice_points s = map (h_decode G h (perturbation z)) (grid [0..<N])"
    by (simp add: s_def cc_sweep_flat lattice_points_fold)
  have nth: "lattice_points s ! (i * N + j) = h_decode G h (perturbation z) (i, j)"
    if "i < N" "j < N" for i j
  proof -
    have "i * N + j < length (grid [0..<N])"
    proof -
      have "i * N + j < i * N + N" using that by simp
      also have "\<dots> = Suc i * N" by simp
      also have "\<dots> \<le> N * N" using that by (simp add: Suc_leI mult_le_mono1 del: mult_Suc)
      finally show ?thesis by (simp add: length_grid)
    qed
    then show ?thesis
      using that by (simp add: lp grid_nth)
  qed
  have Nq: "N = nat q ^ nat M"
    using assms by (simp add: N_def nat_power_eq)
  have len: "length (lattice_points s) = nat q ^ (2 * nat M)"
    by (simp add: lp length_grid Nq power_mult power2_eq_square power_mult_distrib)
  have uq: "unique_count (lattice_points s) \<le> nat q ^ (2 * nat M)"
    using unique_count_le [of "lattice_points s"] len by simp
  have hd: "hd (cc_report s) = UniqueCount (unique_count (lattice_points s))"
    by (simp add: cc_report_def)
  show ?thesis
    unfolding Let_def N_def [symmetric] s_def [symmetric]
    using run lp nth len uq hd by blast
qed


theorem sweep_covers_grid_row_major_witness:
  "2 \<le> (2::int) \<and> 1 \<le> (1::int) \<and>
   cc_setup (accept_h (shift_quantizer (0, 0))) (accept_n (shift_quantizer (0, 0)))
     id_matrix id 2 1 = Inr (0, shift_quantizer (0, 0), shift_quantizer (0, 0)) \<and>
   fst (compare_codebooks (accept_h (shift_quantizer (0, 0))) (accept_n (shift_quantizer (0, 0)))
     square_voronoi (0, 0) id_matrix id 2 1 False) =
     cc_report (cc_sweep id_matrix (shift_quantizer (0, 0)) (shift_quantizer (0, 0))
       (perturbation (0, 0)) [0..<2]) \<and>
   length (lattice_points (cc_sweep id_matrix (shift_quantizer (0, 0)) (shift_quantizer (0, 0))
       (perturbation (0, 0)) [0..<2])) = 4"
proof -
  have h1: "2 \<le> (2::int)" and h2: "1 \<le> (1::int)" by simp_all
  note h3 = accept_setup [of "shift_quantizer (0, 0)" "shift_quantizer (0, 0)" id_matrix id]
  show ?thesis
    using h3 sweep_covers_grid_row_major [OF h1 h2 h3, where V = square_voronoi and z = "(0, 0)"
        and with_plot = False]
    by (simp add: Let_def length_grid)
qed

subsection \<open>C2: which points are recorded as mismatches\<close>

text \<open>
  C2, amended. A mismatch record (perturbed point, hierarchical decode, flat decode) is
  kept for exactly those swept points whose flat decode is close to the perturbed point
  and whose hierarchical decode is not close to the flat decode, where \<open>a\<close> is close to
  \<open>b\<close> when \<open>|a - b| \<le> 1e-7 + 1e-5 * |b|\<close> in both components: the test of
  \<^verbatim>\<open>np.allclose\<close> with \<^verbatim>\<open>atol=1e-7\<close> and its default relative tolerance. A point whose flat
  decode is not close to it is recorded neither as a match nor as a mismatch, and every
  point's hierarchical decode is appended to the codebook.
\<close>

theorem mismatch_retained_iff_allclose:
  "let ps = grid rng;
       s = cc_sweep G h n d rng;
       l_p = perturbed_point G d;
       dec = h_decode G h d;
       l_dec = n_decode G n d;
       close = (\<lambda>a b. \<bar>fst a - fst b\<bar> \<le> 1 / 10 ^ 7 + \<bar>fst b\<bar> / 10 ^ 5 \<and>
                       \<bar>snd a - snd b\<bar> \<le> 1 / 10 ^ 7 + \<bar>snd b\<bar> / 10 ^ 5)
   in mismatches s =
        map (\<lambda>ij. (l_p ij, dec ij, l_dec ij))
          (filter (\<lambda>ij. close (l_dec ij) (l_p ij) \<and> \<not> close (dec ij) (l_dec ij)) ps) \<and>
      matches s =
        map (\<lambda>ij. (l_p ij, dec ij))
          (filter (\<lambda>ij. close (l_dec ij) (l_p ij) \<and> close (dec ij) (l_dec ij)) ps) \<and>
      lattice_points s = map dec ps"
  unfolding Let_def cc_sweep_flat
  by (simp add: mismatches_fold matches_fold lattice_points_fold allclose_iff)

text \<open>
  C2 as the specification states it, with a purely absolute tolerance of \<open>1e-7\<close>, fails:
  at index pair \<open>(1, 0)\<close> of this run the flat decode is \<open>5e-6\<close> away from the perturbed
  point, which is more than \<open>1e-7\<close>, and yet the mismatch record is kept.
\<close>

theorem absolute_tolerance_counterexample:
  "((1, 0), (2, 0), (1 + 5 / 10 ^ 6, 0)) \<in>
     set (mismatches (cc_sweep id_matrix (shift_quantizer (1, 0)) skew_quantizer (0, 0) [0..<2])) \<and>
   \<not> within_abs_tol (1 + 5 / 10 ^ 6, 0) (1, 0) (1 / 10 ^ 7)"
  by (simp add: eval_defs)

subsection \<open>C3: duplicate records\<close>

text \<open>
  C3. A duplicate record \<open>(p, a, b)\<close> is emitted exactly when \<open>b\<close> is a swept index pair
  whose hierarchical decode, rounded to 9 decimals, is \<open>p\<close>, and \<open>a\<close> is the earliest pair of
  the enumeration with the same rounded decode, strictly before \<open>b\<close>. The running map
  sends each rounded point to the first pair that produced it. The rounding enters the
  dictionary key only: the mismatch list is given by the two \<^verbatim>\<open>allclose\<close> tests on the
  decodes that were not rounded.
\<close>

theorem duplicate_record_iff_rounded_seen:
  "let ps = grid rng;
       key = rounded_decode G h d;
       s = cc_sweep G h n d rng
   in (\<forall>p a b. (p, a, b) \<in> set (duplicates s) \<longleftrightarrow>
         (\<exists>k k'. k < length ps \<and> k' < k \<and> b = ps ! k \<and> a = ps ! k' \<and> p = key b \<and>
            key a = p \<and> (\<forall>m<k'. key (ps ! m) \<noteq> p))) \<and>
      (\<forall>p. map_of (point_map s) p = find (\<lambda>ij. key ij = p) ps) \<and>
      (\<forall>ij. key ij = round_point (h_decode G h d ij) 9) \<and>
      mismatches s =
        map (\<lambda>ij. (perturbed_point G d ij, h_decode G h d ij, n_decode G n d ij))
          (filter (\<lambda>ij. allclose (n_decode G n d ij) (perturbed_point G d ij) (1 / 10 ^ 7) \<and>
                      \<not> allclose (h_decode G h d ij) (n_decode G n d ij) (1 / 10 ^ 7)) ps)"
proof -
  have dup: "\<forall>p a b. (p, a, b) \<in> set (duplicates (cc_sweep G h n d rng)) \<longleftrightarrow>
         (\<exists>k k'. k < length (grid rng) \<and> k' < k \<and> b = grid rng ! k \<and> a = grid rng ! k' \<and>
            p = rounded_decode G h d b \<and> rounded_decode G h d a = p \<and>
            (\<forall>m<k'. rounded_decode G h d (grid rng ! m) \<noteq> p))"
    unfolding cc_sweep_flat by (intro allI duplicates_char)
  have pm: "\<forall>p. map_of (point_map (cc_sweep G h n d rng)) p =
         find (\<lambda>ij. rounded_decode G h d ij = p) (grid rng)"
    unfolding cc_sweep_flat by (intro allI first_seen_kept)
  have key: "\<forall>ij. rounded_decode G h d ij = round_point (h_decode G h d ij) 9"
    by (simp add: rounded_decode_def)
  have mm: "mismatches (cc_sweep G h n d rng) =
        map (\<lambda>ij. (perturbed_point G d ij, h_decode G h d ij, n_decode G n d ij))
          (filter (\<lambda>ij. allclose (n_decode G n d ij) (perturbed_point G d ij) (1 / 10 ^ 7) \<and>
                      \<not> allclose (h_decode G h d ij) (n_decode G n d ij) (1 / 10 ^ 7)) (grid rng))"
    by (simp add: cc_sweep_flat mismatches_fold)
  show ?thesis
    unfolding Let_def using dup pm key mm by blast
qed

theorem duplicate_record_iff_rounded_seen_witness:
  "((0, 0), (0, 0), (0, 1)) \<in>
     set (duplicates (cc_sweep id_matrix (const_quantizer (0, 0)) (shift_quantizer (0, 0))
       (0, 0) [0..<2])) \<and>
   map_of (point_map (cc_sweep id_matrix (const_quantizer (0, 0)) (shift_quantizer (0, 0))
       (0, 0) [0..<2])) (0, 0) = Some (0, 0)"
proof -
  let ?key = "rounded_decode id_matrix (const_quantizer (0, 0)) (0, 0)"
  have key: "?key ij = (0, 0)" for ij
    by (simp add: rounded_decode_def h_decode_def roundtrip_def const_quantizer_def np_round_0)
  have ex: "\<exists>k k'. k < length (grid [0..<2]) \<and> k' < k \<and> (0, 1) = grid [0..<2] ! k \<and>
              (0, 0) = grid [0..<2] ! k' \<and> (0, 0) = ?key (0, 1) \<and> ?key (0, 0) = (0, 0) \<and>
              (\<forall>m<k'. ?key (grid [0..<2] ! m) \<noteq> (0, 0))"
    by (intro exI[of _ 1] exI[of _ 0]) (simp add: key grid_0_2)
  have fnd: "find (\<lambda>ij. ?key ij = (0, 0)) (grid [0..<2]) = Some (0, 0)"
    by (simp add: key grid_0_2)
  note T = duplicate_record_iff_rounded_seen [where rng = "[0..<2]" and G = id_matrix
      and h = "const_quantizer (0, 0)" and d = "(0, 0)" and n = "shift_quantizer (0, 0)",
      unfolded Let_def]
  have d1: "((0, 0), (0, 0), (0, 1)) \<in>
     set (duplicates (cc_sweep id_matrix (const_quantizer (0, 0)) (shift_quantizer (0, 0))
       (0, 0) [0..<2]))"
    using T [THEN conjunct1, rule_format, of "(0, 0)" "(0, 0)" "(0, 1)"] ex by (rule iffD2)
  have d2: "map_of (point_map (cc_sweep id_matrix (const_quantizer (0, 0)) (shift_quantizer (0, 0))
       (0, 0) [0..<2])) (0, 0) = Some (0, 0)"
    using T [THEN conjunct2, THEN conjunct1, rule_format, of "(0, 0)"] fnd by (rule trans)
  show ?thesis
    using d1 d2 by (rule conjI)
qed

subsection \<open>C4: the alphabet size of the flat quantizer\<close>



subsection \<open>C5: the run with q = 4 and M = 2\<close>



subsection \<open>C6: degenerate parameters\<close>

text \<open>
  C6, amended. The function checks neither \<open>q\<close> nor \<open>M\<close>. With \<open>q = 1\<close> the division
  by \<open>q - 1\<close> raises \<^verbatim>\<open>ZeroDivisionError\<close> before anything is printed or swept. With
  \<open>M = 0\<close> and \<open>q \<noteq> 1\<close> the overlap fraction is \<open>-1\<close>, the flat alphabet is 2, and when
  both constructors return, the sweep runs over the single index pair \<open>(0, 0)\<close> and the
  report is printed for a codebook of one point.
\<close>

theorem degenerate_parameters_not_validated:
  "(q = 1 \<longrightarrow> compare_codebooks HQ NQ V z G cp q M with_plot = ([], Inl ZeroDivisionError)) \<and>
   (q \<noteq> 1 \<longrightarrow> overlap_fraction q 0 = Inr (- 1) \<and> flat_alphabet q 0 (- 1) = Inr 2) \<and>
   (q \<noteq> 1 \<longrightarrow> HQ G cp q 1 1 0 = Inr h \<longrightarrow> NQ G cp 2 1 1 = Inr n \<longrightarrow>
      fst (compare_codebooks HQ NQ V z G cp q 0 with_plot) =
        cc_report (cc_body G h n (perturbation z) (0, 0) init_state) \<and>
      lattice_points (cc_body G h n (perturbation z) (0, 0) init_state) =
        [roundtrip h (perturbation z)])"
proof (intro conjI impI)
  assume "q = 1"
  then show "compare_codebooks HQ NQ V z G cp q M with_plot = ([], Inl ZeroDivisionError)"
    by (simp add: compare_codebooks_def cc_setup_def overlap_fraction_q1)
next
  assume "q \<noteq> 1"
  then show "overlap_fraction q 0 = Inr (- 1)" by (rule overlap_fraction_M0)
next
  show "flat_alphabet q 0 (- 1) = Inr 2"
    by (simp add: flat_alphabet_def py_pow_def)
next
  assume q: "q \<noteq> 1" and h: "HQ G cp q 1 1 0 = Inr h" and n: "NQ G cp 2 1 1 = Inr n"
  have "cc_setup HQ NQ G cp q 0 = Inr (- 1, h, n)"
    using h n by (simp add: cc_setup_def overlap_fraction_M0 [OF q] flat_alphabet_def py_pow_def)
  from compare_codebooks_run [OF this, of V z with_plot]
  show "fst (compare_codebooks HQ NQ V z G cp q 0 with_plot) =
        cc_report (cc_body G h n (perturbation z) (0, 0) init_state)"
    by (simp add: cc_sweep_single)
next
  show "lattice_points (cc_body G h n (perturbation z) (0, 0) init_state) =
        [roundtrip h (perturbation z)]"
    by (simp add: lattice_points_body h_decode_def perturbed_origin)
qed

theorem degenerate_parameters_not_validated_witness:
  "(1::int) = 1 \<and> (2::int) \<noteq> 1 \<and>
   accept_h (shift_quantizer (0, 0)) id_matrix id 2 1 1 0 = Inr (shift_quantizer (0, 0)) \<and>
   accept_n (shift_quantizer (0, 0)) id_matrix id 2 1 1 = Inr (shift_quantizer (0, 0)) \<and>
   compare_codebooks (accept_h (shift_quantizer (0, 0))) (accept_n (shift_quantizer (0, 0)))
     square_voronoi (0, 0) id_matrix id 1 2 True = ([], Inl ZeroDivisionError) \<and>
   overlap_fraction 2 0 = Inr (- 1) \<and>
   fst (compare_codebooks (accept_h (shift_quantizer (0, 0))) (accept_n (shift_quantizer (0, 0)))
     square_voronoi (0, 0) id_matrix id 2 0 False) =
     cc_report (cc_body id_matrix (shift_quantizer (0, 0)) (shift_quantizer (0, 0))
       (perturbation (0, 0)) (0, 0) init_state)"
proof -
  have h1: "(1::int) = 1" and h2: "(2::int) \<noteq> 1" by simp_all
  have h3: "accept_h (shift_quantizer (0, 0)) id_matrix id 2 1 1 0 = Inr (shift_quantizer (0, 0))"
    by (simp add: accept_h_def)
  have h4: "accept_n (shift_quantizer (0, 0)) id_matrix id 2 1 1 = Inr (shift_quantizer (0, 0))"
    by (simp add: accept_n_def)
  note A = degenerate_parameters_not_validated [where q = 1 and M = 2
      and HQ = "accept_h (shift_quantizer (0, 0))" and NQ = "accept_n (shift_quantizer (0, 0))"
      and V = square_voronoi and z = "(0, 0)" and G = id_matrix and cp = id and with_plot = True
      and h = "shift_quantizer (0, 0)" and n = "shift_quantizer (0, 0)"]
  note B = degenerate_parameters_not_validated [where q = 2 and M = 0
      and HQ = "accept_h (shift_quantizer (0, 0))" and NQ = "accept_n (shift_quantizer (0, 0))"
      and V = square_voronoi and z = "(0, 0)" and G = id_matrix and cp = id and with_plot = False
      and h = "shift_quantizer (0, 0)" and n = "shift_quantizer (0, 0)"]
  have a: "compare_codebooks (accept_h (shift_quantizer (0, 0))) (accept_n (shift_quantizer (0, 0)))
     square_voronoi (0, 0) id_matrix id 1 2 True = ([], Inl ZeroDivisionError)"
    using A [THEN conjunct1] h1 by (rule mp)
  have b: "overlap_fraction 2 0 = Inr (- 1)"
    using B [THEN conjunct2, THEN conjunct1] h2 by blast
  have c: "fst (compare_codebooks (accept_h (shift_quantizer (0, 0))) (accept_n (shift_quantizer (0, 0)))
     square_voronoi (0, 0) id_matrix id 2 0 False) =
     cc_report (cc_body id_matrix (shift_quantizer (0, 0)) (shift_quantizer (0, 0))
       (perturbation (0, 0)) (0, 0) init_state)"
    using B [THEN conjunct2, THEN conjunct2] h2 h3 h4 by blast
  show ?thesis
    using h1 h2 h3 h4 a b c by blast
qed

text \<open>
  C6 as the specification states it fails: with \<open>q = 2\<close>, \<open>M = 0\<close> and constructors that
  accept their arguments, the run is not rejected; it sweeps one point and reports it.
\<close>

theorem degenerate_M0_counterexample:
  "compare_codebooks (accept_h (shift_quantizer (0, 0))) (accept_n (shift_quantizer (0, 0)))
     square_voronoi (0, 0) id_matrix id 2 0 False =
     ([UniqueCount 1, AllUnique, AllMatched], Inr None)"
  by (simp add: compare_codebooks_def cc_setup_def overlap_fraction_def flat_alphabet_def
      py_pow_def accept_h_def accept_n_def cc_report_def unique_count_def eval_defs)

subsection \<open>C7: a failed origin lookup comes after the report\<close>

text \<open>
  C7. When no point of the codebook has both components within \<open>1e-2\<close> of 0, the origin
  lookup of the plotting function raises \<^verbatim>\<open>IndexError\<close> (unless plotting has failed before
  it, on the Voronoi construction), so the run ends in an error; but the unique-point
  count, the whole duplicate list and the whole mismatch list have been printed by then.
\<close>

theorem origin_lookup_failure_after_report:
  assumes "cc_setup HQ NQ G cp q M = Inr (r_q, h, n)" "0 \<le> M"
    and "\<forall>p\<in>set (lattice_points (cc_sweep G h n (perturbation z) [0..<nat (q ^ nat M)])).
           \<not> (\<bar>fst p\<bar> \<le> 1 / 10 ^ 2 \<and> \<bar>snd p\<bar> \<le> 1 / 10 ^ 2)"
  shows "let s = cc_sweep G h n (perturbation z) [0..<nat (q ^ nat M)]
         in find_origin (lattice_points s) 0 = Inl IndexError \<and>
            fst (compare_codebooks HQ NQ V z G cp q M True) =
              [UniqueCount (unique_count (lattice_points s)),
               (if duplicates s \<noteq> [] then DuplicatesFound (duplicates s) else AllUnique),
               (if mismatches s \<noteq> [] then MismatchesFound (mismatches s) else AllMatched)] \<and>
            snd (compare_codebooks HQ NQ V z G cp q M True) =
              (if lattice_points s = [] then Inl IndexError
               else case V (lattice_points s) of Inl e \<Rightarrow> Inl e | Inr vor \<Rightarrow> Inl IndexError) \<and>
            (\<exists>e. snd (compare_codebooks HQ NQ V z G cp q M True) = Inl e)"
proof -
  define s where "s = cc_sweep G h n (perturbation z) [0..<nat (q ^ nat M)]"
  have far: "\<forall>p\<in>set (lattice_points s). \<not> near_origin p"
    using assms(3) by (simp add: s_def near_origin_iff)
  have fo: "find_origin (lattice_points s) 0 = Inl IndexError"
    using far by (rule find_origin_none)
  have run: "compare_codebooks HQ NQ V z G cp q M True =
      (cc_report s,
       case plot_with_voronoi V (lattice_points s) q r_q M of
         Inl e \<Rightarrow> Inl e | Inr p \<Rightarrow> Inr (Some p))"
    using compare_codebooks_run [OF assms(1,2), of V z True] by (simp add: s_def)
  have out: "fst (compare_codebooks HQ NQ V z G cp q M True) =
              [UniqueCount (unique_count (lattice_points s)),
               (if duplicates s \<noteq> [] then DuplicatesFound (duplicates s) else AllUnique),
               (if mismatches s \<noteq> [] then MismatchesFound (mismatches s) else AllMatched)]"
    by (simp add: run cc_report_def)
  have res: "snd (compare_codebooks HQ NQ V z G cp q M True) =
              (if lattice_points s = [] then Inl IndexError
               else case V (lattice_points s) of Inl e \<Rightarrow> Inl e | Inr vor \<Rightarrow> Inl IndexError)"
    by (simp add: run plot_without_origin [OF far] split: sum.splits)
  have err: "\<exists>e. snd (compare_codebooks HQ NQ V z G cp q M True) = Inl e"
    unfolding res by (simp split: sum.splits)
  show ?thesis
    unfolding Let_def s_def [symmetric] using fo out res err by blast
qed

theorem origin_lookup_failure_after_report_witness:
  "cc_setup (accept_h (shift_quantizer (1, 1))) (accept_n (shift_quantizer (0, 0))) id_matrix id 2 1 =
     Inr (0, shift_quantizer (1, 1), shift_quantizer (0, 0)) \<and>
   (0::int) \<le> 1 \<and>
   lattice_points (cc_sweep id_matrix (shift_quantizer (1, 1)) (shift_quantizer (0, 0))
     (perturbation (0, 0)) [0..<2]) = [(1, 1), (1, 2), (2, 1), (2, 2)] \<and>
   snd (compare_codebooks (accept_h (shift_quantizer (1, 1))) (accept_n (shift_quantizer (0, 0)))
     square_voronoi (0, 0) id_matrix id 2 1 True) = Inl IndexError \<and>
   hd (fst (compare_codebooks (accept_h (shift_quantizer (1, 1))) (accept_n (shift_quantizer (0, 0)))
     square_voronoi (0, 0) id_matrix id 2 1 True)) = UniqueCount 4"
proof -
  note h1 = accept_setup [of "shift_quantizer (1, 1)" "shift_quantizer (0, 0)" id_matrix id]
  have h2: "(0::int) \<le> 1" by simp
  have N: "nat (2 ^ nat 1) = 2" by simp
  have h3: "\<forall>p\<in>set (lattice_points (cc_sweep id_matrix (shift_quantizer (1, 1))
          (shift_quantizer (0, 0)) (perturbation (0, 0)) [0..<nat (2 ^ nat 1)])).
          \<not> (\<bar>fst p\<bar> \<le> 1 / 10 ^ 2 \<and> \<bar>snd p\<bar> \<le> 1 / 10 ^ 2)"
    unfolding N by (simp add: shifted_codebook)
  note T = origin_lookup_failure_after_report [OF h1 h2 h3, where V = square_voronoi,
      unfolded Let_def N]
  have a: "snd (compare_codebooks (accept_h (shift_quantizer (1, 1))) (accept_n (shift_quantizer (0, 0)))
     square_voronoi (0, 0) id_matrix id 2 1 True) = Inl IndexError"
    using T [THEN conjunct2, THEN conjunct2, THEN conjunct1]
    by (simp add: shifted_codebook square_voronoi_def)
  have b: "hd (fst (compare_codebooks (accept_h (shift_quantizer (1, 1))) (accept_n (shift_quantizer (0, 0)))
     square_voronoi (0, 0) id_matrix id 2 1 True)) = UniqueCount 4"
    using T [THEN conjunct2, THEN conjunct1]
    by (simp add: shifted_codebook unique_count_def)
  show ?thesis
    using h1 h2 shifted_codebook a b by blast
qed

subsection \<open>C8: the three shaping-region polygons\<close>




subsection \<open>C9: the number of duplicates does not depend on the enumeration order\<close>

text \<open>
  C9. Sweeping the grid column by column instead of row by row emits the same number of
  duplicate records, for every range (in particular \<open>[0, q ^ M)\<close>) and every perturbation.
  Which pair a record names as first seen may change, as \<open>colmajor_changes_first_seen\<close>
  shows on a two by two grid.
\<close>

theorem duplicate_count_order_independent:
  "length (duplicates (cc_loops_colmajor G h n d rng init_state)) =
     length (duplicates (cc_sweep G h n d rng))"
proof -
  have "length (duplicates (cc_loops_colmajor G h n d rng init_state)) =
        length (map prod.swap (grid rng)) -
          card (rounded_decode G h d ` set (map prod.swap (grid rng)))"
    unfolding cc_loops_colmajor_flat by (rule length_duplicates)
  also have "\<dots> = length (grid rng) - card (rounded_decode G h d ` set (grid rng))"
    by (simp only: set_swap_grid length_map)
  also have "\<dots> = length (duplicates (cc_sweep G h n d rng))"
    unfolding cc_sweep_flat by (rule length_duplicates [symmetric])
  finally show ?thesis .
qed

subsection \<open>C10: map entries plus duplicate records count the processed pairs\<close>

text \<open>
  C10. After each iteration of the sweep, the number of entries of the rounded-point map
  plus the number of duplicate records emitted so far is the number of index pairs
  processed so far. After the whole sweep the map has one entry for each distinct rounded
  decode, and that number plus the number of duplicate records is \<open>q ^ (2 * M)\<close>.
\<close>

theorem map_plus_duplicates_counts_processed:
  assumes "2 \<le> q" "1 \<le> M"
  shows "let ps = grid [0..<nat (q ^ nat M)];
             key = rounded_decode G h d;
             final = cc_sweep G h n d [0..<nat (q ^ nat M)]
         in (\<forall>k\<le>length ps.
               length (lattice_points (fold (cc_body G h n d) (take k ps) init_state)) = k \<and>
               length (point_map (fold (cc_body G h n d) (take k ps) init_state)) +
               length (duplicates (fold (cc_body G h n d) (take k ps) init_state)) = k) \<and>
            final = fold (cc_body G h n d) (take (length ps) ps) init_state \<and>
            length (point_map final) = card (key ` set ps) \<and>
            card (key ` set ps) + length (duplicates final) = nat q ^ (2 * nat M)"
proof -
  define N where "N = nat (q ^ nat M)"
  define ps where "ps = grid [0..<N]"
  have Nq: "N = nat q ^ nat M"
    using assms by (simp add: N_def nat_power_eq)
  have len: "length ps = nat q ^ (2 * nat M)"
    by (simp add: ps_def length_grid Nq power_mult power2_eq_square power_mult_distrib)
  have pre: "length (lattice_points (fold (cc_body G h n d) (take k ps) init_state)) = k \<and>
             length (point_map (fold (cc_body G h n d) (take k ps) init_state)) +
             length (duplicates (fold (cc_body G h n d) (take k ps) init_state)) = k"
    if "k \<le> length ps" for k
    using that count_fold [of G h n d "take k ps" init_state]
    by (simp add: lattice_points_fold)
  have fin: "cc_sweep G h n d [0..<N] = fold (cc_body G h n d) (take (length ps) ps) init_state"
    by (simp add: cc_sweep_flat ps_def)
  have pm: "length (point_map (cc_sweep G h n d [0..<N])) = card (rounded_decode G h d ` set ps)"
    by (simp add: cc_sweep_flat ps_def length_point_map)
  have tot: "card (rounded_decode G h d ` set ps) + length (duplicates (cc_sweep G h n d [0..<N])) =
             nat q ^ (2 * nat M)"
    using count_fold [of G h n d ps init_state] pm len
    by (simp add: cc_sweep_flat ps_def)
  show ?thesis
    unfolding Let_def N_def [symmetric] ps_def [symmetric]
    using pre fin pm tot by blast
qed

theorem map_plus_duplicates_counts_processed_witness:
  "2 \<le> (2::int) \<and> 1 \<le> (1::int) \<and>
   length (point_map (cc_sweep id_matrix (const_quantizer (0, 0)) (shift_quantizer (0, 0))
       (0, 0) [0..<2])) +
   length (duplicates (cc_sweep id_matrix (const_quantizer (0, 0)) (shift_quantizer (0, 0))
       (0, 0) [0..<2])) = 4"
proof -
  have h1: "2 \<le> (2::int)" and h2: "1 \<le> (1::int)" by simp_all
  note T = map_plus_duplicates_counts_processed [OF h1 h2, where G = id_matrix
      and h = "const_quantizer (0, 0)" and n = "shift_quantizer (0, 0)" and d = "(0, 0)",
      unfolded Let_def]
  note pm = T [THEN conjunct2, THEN conjunct2, THEN conjunct1]
  note tot = T [THEN conjunct2, THEN conjunct2, THEN conjunct2]
  show ?thesis
    using pm tot by simp
qed

end
